theory Spec2Isabelle
  imports Main
begin

section \<open>The Hashcat rule engine of \<open>PasswordGuesser\<close>\<close>

text \<open>
  The development embeds \<open>load_hashcat_rules\<close> and \<open>apply_hashcat_rule\<close> of
  \<open>Online/Model Training/Attack on Rules/hashcat...py\<close>.

  A Python string is the list of its code points, and a code point is a natural number.
  What Python does to the code points below 256 (case mapping, white space, digits) is
  written out in the definitions below. What it does beyond them depends on the Unicode
  tables of the running interpreter, which are no part of the repository: they are the
  parameter \<open>U\<close> of every function that consults them.

  The code keeps the word as a list \<open>output\<close> of strings, one element for each character
  of the input word. An element is one character until a case instruction replaces it
  by its case mapping, which can be longer: the upper case of \<open>0xDF\<close> is \<open>SS\<close>. The
  model therefore keeps \<open>output\<close> as a list of strings.

  Every Python operation that can raise is a function into \<open>exn + 'a\<close>, and every
  \<open>try ... except\<close> of the source is an explicit handler, so that an exception
  escaping a function of the source is the value \<open>Inl e\<close> of its model.
\<close>

subsection \<open>Strings and the Unicode tables\<close>

type_synonym cp = nat
type_synonym pstr = "cp list"

text \<open>The code point of a character of this text, and the Python string of a literal.\<close>

definition ord :: "char \<Rightarrow> cp" where
  "ord c = of_char c"

definition str :: "string \<Rightarrow> pstr" where
  "str s = map ord s"

text \<open>The tables of the interpreter beyond code point 255: \<open>str.upper\<close>, \<open>str.lower\<close>
  and \<open>str.islower\<close> on a string that has such a code point, and \<open>str.isspace\<close> and the
  decimal digit value of such a code point.\<close>

record ucd =
  ucd_upper :: "pstr \<Rightarrow> pstr"
  ucd_lower :: "pstr \<Rightarrow> pstr"
  ucd_islower :: "pstr \<Rightarrow> bool"
  ucd_isspace :: "cp \<Rightarrow> bool"
  ucd_decimal :: "cp \<Rightarrow> nat option"

text \<open>Tables with nothing beyond code point 255: no case mapping, no white space and no
  digit there. They serve where a concrete interpreter is needed and the input stays
  below 256.\<close>

definition plain_ucd :: ucd where
  "plain_ucd = \<lparr>ucd_upper = (\<lambda>s. s), ucd_lower = (\<lambda>s. s), ucd_islower = (\<lambda>s. False),
     ucd_isspace = (\<lambda>c. False), ucd_decimal = (\<lambda>c. None)\<rparr>"

definition latin1 :: "pstr \<Rightarrow> bool" where
  "latin1 s = list_all (\<lambda>c. c < 256) s"

subsection \<open>Python primitives\<close>

datatype exn = ValueError | IndexError | OSError | UnicodeEncodeError

fun bind_r :: "exn + 'a \<Rightarrow> ('a \<Rightarrow> exn + 'b) \<Rightarrow> exn + 'b" where
  "bind_r (Inl e) f = Inl e"
| "bind_r (Inr x) f = f x"

text \<open>\<open>try: body except (e1, ...): pass\<close>, where the state before the body is \<open>st\<close>
  and the body writes the state in its last step only.\<close>

fun except_pass :: "exn list \<Rightarrow> exn + 'a \<Rightarrow> 'a \<Rightarrow> exn + 'a" where
  "except_pass caught (Inr v) st = Inr v"
| "except_pass caught (Inl e) st = (if e \<in> set caught then Inr st else Inl e)"

text \<open>\<open>try: body except Exception as e: handler\<close>: every exception of the model is an
  \<open>Exception\<close>, and the handler can raise in its turn.\<close>

fun except_exception :: "exn + 'a \<Rightarrow> (exn \<Rightarrow> exn + 'a) \<Rightarrow> exn + 'a" where
  "except_exception (Inr v) handler = Inr v"
| "except_exception (Inl e) handler = handler e"

text \<open>\<open>print(message)\<close>: writing to the standard output succeeds, or raises (an output
  that cannot encode the message, a closed pipe). \<open>out\<close> says which.\<close>

fun py_print :: "exn option \<Rightarrow> exn + unit" where
  "py_print None = Inr ()"
| "py_print (Some e) = Inl e"

text \<open>\<open>str.isspace\<close> on one code point: the characters that \<open>str.split()\<close> and
  \<open>str.strip()\<close> treat as white space.\<close>

definition py_isspace :: "ucd \<Rightarrow> cp \<Rightarrow> bool" where
  "py_isspace U c =
     (if c < 256 then c \<in> set [9, 10, 11, 12, 13, 28, 29, 30, 31, 32, 133, 160]
      else ucd_isspace U c)"

text \<open>The case of the code points below 256: the lower-case and the upper-case ones,
  and the upper and lower case mapping of each. The upper case of \<open>0xDF\<close> is two
  characters, and those of \<open>0xB5\<close> and \<open>0xFF\<close> lie beyond 255.\<close>

definition lat_islower :: "cp \<Rightarrow> bool" where
  "lat_islower c =
     ((97 \<le> c \<and> c \<le> 122) \<or> c = 170 \<or> c = 181 \<or> c = 186 \<or> (223 \<le> c \<and> c \<le> 246)
      \<or> (248 \<le> c \<and> c \<le> 255))"

definition lat_isupper :: "cp \<Rightarrow> bool" where
  "lat_isupper c = ((65 \<le> c \<and> c \<le> 90) \<or> (192 \<le> c \<and> c \<le> 214) \<or> (216 \<le> c \<and> c \<le> 222))"

definition lat_upper :: "cp \<Rightarrow> pstr" where
  "lat_upper c =
     (if 97 \<le> c \<and> c \<le> 122 then [c - 32]
      else if c = 181 then [924]
      else if c = 223 then [83, 83]
      else if (224 \<le> c \<and> c \<le> 246) \<or> (248 \<le> c \<and> c \<le> 254) then [c - 32]
      else if c = 255 then [376]
      else [c])"

definition lat_lower :: "cp \<Rightarrow> cp" where
  "lat_lower c = (if lat_isupper c then c + 32 else c)"

text \<open>\<open>s.upper()\<close>, \<open>s.lower()\<close> and \<open>s.islower()\<close>. A string is lower case when it has a
  lower-case character and no upper-case one.\<close>

definition py_upper :: "ucd \<Rightarrow> pstr \<Rightarrow> pstr" where
  "py_upper U s = (if latin1 s then concat (map lat_upper s) else ucd_upper U s)"

definition py_lower :: "ucd \<Rightarrow> pstr \<Rightarrow> pstr" where
  "py_lower U s = (if latin1 s then map lat_lower s else ucd_lower U s)"

definition py_islower :: "ucd \<Rightarrow> pstr \<Rightarrow> bool" where
  "py_islower U s =
     (if latin1 s then list_ex lat_islower s \<and> \<not> list_ex lat_isupper s
      else ucd_islower U s)"

text \<open>\<open>s.strip()\<close> and \<open>s.split()\<close> with no argument.\<close>

definition py_strip :: "ucd \<Rightarrow> pstr \<Rightarrow> pstr" where
  "py_strip U s = rev (dropWhile (py_isspace U) (rev (dropWhile (py_isspace U) s)))"

fun py_split_from :: "ucd \<Rightarrow> pstr \<Rightarrow> pstr \<Rightarrow> pstr list" where
  "py_split_from U cur [] = (if cur = [] then [] else [rev cur])"
| "py_split_from U cur (c # cs) =
     (if py_isspace U c
      then (if cur = [] then py_split_from U [] cs else rev cur # py_split_from U [] cs)
      else py_split_from U (c # cur) cs)"

definition py_split :: "ucd \<Rightarrow> pstr \<Rightarrow> pstr list" where
  "py_split U s = py_split_from U [] s"

text \<open>\<open>list(s)\<close> and \<open>"".join(xs)\<close>.\<close>

definition py_list :: "pstr \<Rightarrow> pstr list" where
  "py_list s = map (\<lambda>c. [c]) s"

definition py_join :: "pstr list \<Rightarrow> pstr" where
  "py_join xs = concat xs"

text \<open>\<open>xs[i]\<close>, \<open>xs[i] = v\<close>, \<open>xs.insert(i, v)\<close>, \<open>xs.pop(0)\<close> and \<open>xs.pop()\<close> on a list,
  with Python's negative indices.\<close>

definition py_getitem :: "'a list \<Rightarrow> int \<Rightarrow> exn + 'a" where
  "py_getitem xs i =
     (if 0 \<le> i \<and> i < int (length xs) then Inr (xs ! nat i)
      else if i < 0 \<and> - int (length xs) \<le> i then Inr (xs ! nat (i + int (length xs)))
      else Inl IndexError)"

definition py_setitem :: "'a list \<Rightarrow> int \<Rightarrow> 'a \<Rightarrow> exn + 'a list" where
  "py_setitem xs i v =
     (if 0 \<le> i \<and> i < int (length xs) then Inr (xs[nat i := v])
      else if i < 0 \<and> - int (length xs) \<le> i then Inr (xs[nat (i + int (length xs)) := v])
      else Inl IndexError)"

definition py_insert :: "'a list \<Rightarrow> int \<Rightarrow> 'a \<Rightarrow> 'a list" where
  "py_insert xs i v =
     (let k = (if i < 0 then nat (max 0 (i + int (length xs))) else min (nat i) (length xs))
      in take k xs @ v # drop k xs)"

definition py_pop_first :: "'a list \<Rightarrow> exn + 'a list" where
  "py_pop_first xs = (if xs = [] then Inl IndexError else Inr (tl xs))"

definition py_pop_last :: "'a list \<Rightarrow> exn + 'a list" where
  "py_pop_last xs = (if xs = [] then Inl IndexError else Inr (butlast xs))"

text \<open>\<open>int(c, base)\<close> on a string of one character \<open>c\<close>: the digits and letters of
  ASCII with their values, and beyond code point 255 the decimal digits of the tables.\<close>

definition digit_of :: "ucd \<Rightarrow> cp \<Rightarrow> nat option" where
  "digit_of U c =
     (if 48 \<le> c \<and> c \<le> 57 then Some (c - 48)
      else if 97 \<le> c \<and> c \<le> 122 then Some (c - 87)
      else if 65 \<le> c \<and> c \<le> 90 then Some (c - 55)
      else if c < 256 then None
      else ucd_decimal U c)"

definition py_int :: "ucd \<Rightarrow> cp \<Rightarrow> nat \<Rightarrow> exn + int" where
  "py_int U c base =
     (case digit_of U c of
        None \<Rightarrow> Inl ValueError
      | Some d \<Rightarrow> if d < base then Inr (int d) else Inl ValueError)"

subsection \<open>\<open>apply_hashcat_rule\<close>\<close>

text \<open>The toggle of one element: \<open>x.upper() if x.islower() else x.lower()\<close>.\<close>

definition toggle :: "ucd \<Rightarrow> pstr \<Rightarrow> pstr" where
  "toggle U x = (if py_islower U x then py_upper U x else py_lower U x)"

text \<open>One pass of the body of \<open>for part in parts\<close> on the list \<open>output\<close>.\<close>

definition exec_part :: "ucd \<Rightarrow> pstr \<Rightarrow> pstr list \<Rightarrow> exn + pstr list" where
  "exec_part U part output =
     (if part = [] then Inr output
      else bind_r (py_getitem part 0) (\<lambda>cmd.
        let arg = drop 1 part in
        if cmd = ord CHR '':'' then Inr output
        else if cmd = ord CHR ''l'' then Inr (map (py_lower U) output)
        else if cmd = ord CHR ''u'' then Inr (map (py_upper U) output)
        else if cmd = ord CHR ''c'' then
          (if output \<noteq> [] then
             (let out1 = map (py_lower U) output in
              bind_r (py_getitem out1 0) (\<lambda>x. py_setitem out1 0 (py_upper U x)))
           else Inr output)
        else if cmd = ord CHR ''C'' then
          (if output \<noteq> [] then
             (let out1 = map (py_upper U) output in
              bind_r (py_getitem out1 0) (\<lambda>x. py_setitem out1 0 (py_lower U x)))
           else Inr output)
        else if cmd = ord CHR ''t'' then Inr (map (toggle U) output)
        else if cmd = ord CHR ''r'' then Inr (rev output)
        else if cmd = ord CHR ''['' then
          (if output \<noteq> [] then py_pop_first output else Inr output)
        else if cmd = ord CHR '']'' then
          (if output \<noteq> [] then py_pop_last output else Inr output)
        else if cmd = ord CHR ''$'' then
          (if arg \<noteq> [] then bind_r (py_getitem arg 0) (\<lambda>a. Inr (output @ [[a]]))
           else Inr output)
        else if cmd = ord CHR ''^'' then
          (if arg \<noteq> [] then bind_r (py_getitem arg 0) (\<lambda>a. Inr (py_insert output 0 [a]))
           else Inr output)
        else if cmd = ord CHR ''T'' then
          except_pass [ValueError, IndexError]
            (bind_r (py_getitem arg 0) (\<lambda>a.
             bind_r (py_int U a 16) (\<lambda>pos.
               if pos < int (length output)
               then bind_r (py_getitem output pos) (\<lambda>x. py_setitem output pos (toggle U x))
               else Inr output)))
            output
        else if cmd = ord CHR ''D'' then
          except_pass [ValueError, IndexError]
            (bind_r (py_getitem arg 0) (\<lambda>a.
             bind_r (py_int U a 10) (\<lambda>n.
               let pos = n - 1 in
               if 0 \<le> pos \<and> pos < int (length output)
               then bind_r (py_getitem output pos) (\<lambda>x. Inr (py_insert output (pos + 1) x))
               else Inr output)))
            output
        else if cmd = ord CHR ''+'' then
          (if arg \<noteq> [] then bind_r (py_getitem arg 0) (\<lambda>a. Inr (output @ [[a]]))
           else Inr output)
        else if cmd = ord CHR ''-'' then
          (if arg \<noteq> [] then bind_r (py_getitem arg 0) (\<lambda>a. Inr (py_insert output 0 [a]))
           else Inr output)
        else Inr output))"

text \<open>The loop \<open>for part in parts\<close>: the parts run from left to right, each on the
  list the one before it left.\<close>

fun run_parts :: "ucd \<Rightarrow> pstr list \<Rightarrow> pstr list \<Rightarrow> exn + pstr list" where
  "run_parts U [] output = Inr output"
| "run_parts U (part # parts) output = bind_r (exec_part U part output) (run_parts U parts)"

definition apply_hashcat_rule :: "ucd \<Rightarrow> pstr \<Rightarrow> pstr \<Rightarrow> exn + pstr" where
  "apply_hashcat_rule U word rule =
     (if word = [] then Inr []
      else bind_r (run_parts U (py_split U rule) (py_list word)) (\<lambda>output.
           Inr (py_join output)))"

subsection \<open>\<open>load_hashcat_rules\<close>\<close>

text \<open>What the loader finds at the path: nothing, something that \<open>open\<close> refuses
  (a directory, a file without read permission), or a file with its decoded text.\<close>

datatype rule_file = Missing | Unopenable | Readable pstr

definition path_exists :: "rule_file \<Rightarrow> bool" where
  "path_exists f = (f \<noteq> Missing)"

fun py_open :: "rule_file \<Rightarrow> exn + pstr" where
  "py_open (Readable txt) = Inr txt"
| "py_open Missing = Inl OSError"
| "py_open Unopenable = Inl OSError"

text \<open>The lines that iterating a text file yields, in universal newlines mode: a line
  ends after \<open>\n\<close>, \<open>\r\<close> or \<open>\r\n\<close>, each delivered as \<open>\n\<close>; text after the last
  line end is a last line.\<close>

fun file_lines_from :: "pstr \<Rightarrow> pstr \<Rightarrow> pstr list" where
  "file_lines_from cur [] = (if cur = [] then [] else [rev cur])"
| "file_lines_from cur (c # cs) =
     (if c = 10 then rev (10 # cur) # file_lines_from [] cs
      else if c = 13 then
        (case cs of
           [] \<Rightarrow> [rev (10 # cur)]
         | d # ds \<Rightarrow>
             if d = 10 then rev (10 # cur) # file_lines_from [] ds
             else rev (10 # cur) # file_lines_from [] cs)
      else file_lines_from (c # cur) cs)"

definition file_lines :: "pstr \<Rightarrow> pstr list" where
  "file_lines txt = file_lines_from [] txt"

text \<open>The body of \<open>for line in f\<close>, on the list \<open>rules\<close>.\<close>

fun collect_rules :: "ucd \<Rightarrow> pstr list \<Rightarrow> pstr list \<Rightarrow> pstr list" where
  "collect_rules U rules [] = rules"
| "collect_rules U rules (line # rest) =
     (let line1 = py_strip U line in
      if line1 \<noteq> [] \<and> \<not> (take 1 line1 = str ''#'')
      then collect_rules U (rules @ [line1]) rest
      else collect_rules U rules rest)"

text \<open>The loader. When \<open>open\<close> raises, \<open>rules\<close> is still empty; the handler prints its
  message, which \<open>out\<close> lets succeed or raise, and the function returns \<open>rules\<close>.\<close>

definition load_hashcat_rules :: "ucd \<Rightarrow> exn option \<Rightarrow> rule_file \<Rightarrow> exn + pstr list" where
  "load_hashcat_rules U out f =
     (if \<not> path_exists f then Inr []
      else except_exception
             (bind_r (py_open f) (\<lambda>txt. Inr (collect_rules U [] (file_lines txt))))
             (\<lambda>e. bind_r (py_print out) (\<lambda>u. Inr [])))"

subsection \<open>The words of the specification\<close>

text \<open>The specification speaks of \<open>one hex digit\<close> and \<open>one decimal digit\<close>: the digits
  of ASCII and their values, as tables, and beyond code point 255 the decimal digits of
  the interpreter, which are digits in both senses.\<close>

definition hex_digit :: "ucd \<Rightarrow> cp \<Rightarrow> nat option" where
  "hex_digit U c =
     (if c < 256
      then map_of (zip (str ''0123456789abcdef'') [0..<16] @ zip (str ''ABCDEF'') [10..<16]) c
      else (case ucd_decimal U c of None \<Rightarrow> None | Some d \<Rightarrow> if d < 16 then Some d else None))"

definition dec_digit :: "ucd \<Rightarrow> cp \<Rightarrow> nat option" where
  "dec_digit U c =
     (if c < 256 then map_of (zip (str ''0123456789'') [0..<10]) c
      else (case ucd_decimal U c of None \<Rightarrow> None | Some d \<Rightarrow> if d < 10 then Some d else None))"

text \<open>An instruction that cannot apply to the list \<open>output\<close>: its argument is
  missing, is not a digit where a position is required, or names a position outside
  the list. A position outside the word is outside the list, which has no more elements
  than the word has characters when no element is empty.\<close>

definition inapplicable :: "ucd \<Rightarrow> pstr \<Rightarrow> pstr list \<Rightarrow> bool" where
  "inapplicable U part output =
     (case part of
        [] \<Rightarrow> False
      | [cmd] \<Rightarrow> cmd \<in> set (str ''$+^-TD'')
      | cmd # a # rest \<Rightarrow>
          (cmd = ord CHR ''T'' \<and>
             (case hex_digit U a of None \<Rightarrow> True | Some n \<Rightarrow> length output \<le> n)) \<or>
          (cmd = ord CHR ''D'' \<and>
             (case dec_digit U a of None \<Rightarrow> True | Some n \<Rightarrow> n = 0 \<or> length output < n)))"

text \<open>The lines of a rule file: a blank line holds white space only, a comment line
  has \<open>#\<close> as its first character that is not white space, and every other line is
  a rule.\<close>

definition blank_line :: "ucd \<Rightarrow> pstr \<Rightarrow> bool" where
  "blank_line U l = list_all (py_isspace U) l"

definition comment_line :: "ucd \<Rightarrow> pstr \<Rightarrow> bool" where
  "comment_line U l =
     (case dropWhile (py_isspace U) l of [] \<Rightarrow> False | c # rest \<Rightarrow> c = ord CHR ''#'')"

definition rule_line :: "ucd \<Rightarrow> pstr \<Rightarrow> bool" where
  "rule_line U l = (\<not> blank_line U l \<and> \<not> comment_line U l)"

text \<open>A property of the case tables: every character of the upper case of a character
  is its own upper case.\<close>

definition upper_fixed :: "ucd \<Rightarrow> bool" where
  "upper_fixed U = (\<forall>c. list_all (\<lambda>d. py_upper U [d] = [d]) (py_upper U [c]))"

section \<open>Properties\<close>

subsection \<open>Python digits and the digit tables\<close>

lemma hex_digit_ranges:
  "hex_digit U c =
     (if 48 \<le> c \<and> c \<le> 57 then Some (c - 48)
      else if 97 \<le> c \<and> c \<le> 102 then Some (c - 87)
      else if 65 \<le> c \<and> c \<le> 70 then Some (c - 55)
      else if c < 256 then None
      else (case ucd_decimal U c of None \<Rightarrow> None | Some d \<Rightarrow> if d < 16 then Some d else None))"
  unfolding hex_digit_def
  apply (simp add: str_def ord_def upt_rec)
  apply arith
  done

lemma dec_digit_ranges:
  "dec_digit U c =
     (if 48 \<le> c \<and> c \<le> 57 then Some (c - 48)
      else if c < 256 then None
      else (case ucd_decimal U c of None \<Rightarrow> None | Some d \<Rightarrow> if d < 10 then Some d else None))"
  unfolding dec_digit_def
  apply (simp add: str_def ord_def upt_rec)
  apply arith
  done

lemma py_int_hex:
  "py_int U c 16 = (case hex_digit U c of None \<Rightarrow> Inl ValueError | Some n \<Rightarrow> Inr (int n))"
  unfolding py_int_def digit_of_def hex_digit_ranges
  by (simp split: if_splits option.splits) arith

lemma py_int_dec:
  "py_int U c 10 = (case dec_digit U c of None \<Rightarrow> Inl ValueError | Some n \<Rightarrow> Inr (int n))"
  unfolding py_int_def digit_of_def dec_digit_ranges
  by (simp split: if_splits option.splits) arith

lemma exec_toggle_at:
  "exec_part U (ord CHR ''T'' # a # rest) out =
     (case hex_digit U a of
        None \<Rightarrow> Inr out
      | Some n \<Rightarrow> if n < length out then Inr (out[n := toggle U (out ! n)])
                  else Inr out)"
  by (simp add: exec_part_def ord_def py_getitem_def py_setitem_def py_int_hex split: option.split)

lemma exec_duplicate_at:
  "exec_part U (ord CHR ''D'' # a # rest) out =
     (case dec_digit U a of
        None \<Rightarrow> Inr out
      | Some n \<Rightarrow> if 1 \<le> n \<and> n \<le> length out
                  then Inr (take n out @ out ! (n - 1) # drop n out)
                  else Inr out)"
  by (auto simp add: exec_part_def ord_def py_getitem_def py_insert_def py_int_dec Let_def
        nat_diff_distrib min_def split: option.split)

lemma exec_missing_arg:
  "cmd \<in> set (str ''$+^-TD'') \<Longrightarrow> exec_part U [cmd] out = Inr out"
  by (auto simp add: exec_part_def str_def ord_def py_getitem_def)

lemma exec_inapplicable: "inapplicable U part out \<Longrightarrow> exec_part U part out = Inr out"
proof (cases part)
  case Nil
  then show ?thesis by (simp add: exec_part_def)
next
  case (Cons cmd arg)
  assume h: "inapplicable U part out"
  show ?thesis
  proof (cases arg)
    case Nil
    with Cons h show ?thesis
      using exec_missing_arg [of cmd U out] by (simp add: inapplicable_def)
  next
    case (Cons a rest)
    with \<open>part = cmd # arg\<close> h show ?thesis
      by (auto simp add: inapplicable_def exec_toggle_at exec_duplicate_at split: option.splits)
  qed
qed

lemma exec_part_returns: "\<exists>v. exec_part U part out = Inr v"
proof (cases part)
  case Nil
  then show ?thesis by (simp add: exec_part_def)
next
  case (Cons cmd arg)
  show ?thesis
  proof (cases arg)
    case Nil
    then show ?thesis using Cons
      by (simp add: exec_part_def py_getitem_def py_setitem_def py_pop_first_def
          py_pop_last_def Let_def)
  next
    case (Cons a rest)
    then show ?thesis using \<open>part = cmd # arg\<close>
      by (simp add: exec_part_def py_getitem_def py_setitem_def py_pop_first_def
          py_pop_last_def py_int_def Let_def split: option.split)
  qed
qed

lemma run_parts_returns: "\<exists>v. run_parts U parts out = Inr v"
proof (induction parts arbitrary: out)
  case Nil
  show ?case by simp
next
  case (Cons part parts)
  obtain v where "exec_part U part out = Inr v"
    using exec_part_returns by blast
  with Cons show ?case by simp
qed

lemma apply_returns: "\<exists>v. apply_hashcat_rule U word rule = Inr v"
proof (cases "word = []")
  case True
  then show ?thesis by (simp add: apply_hashcat_rule_def)
next
  case False
  obtain v where "run_parts U (py_split U rule) (py_list word) = Inr v"
    using run_parts_returns by blast
  with False show ?thesis by (simp add: apply_hashcat_rule_def)
qed

lemma run_parts_append:
  "run_parts U (ps @ qs) out = bind_r (run_parts U ps out) (run_parts U qs)"
proof (induction ps arbitrary: out)
  case Nil
  show ?case by simp
next
  case (Cons p ps)
  show ?case
  proof (cases "exec_part U p out")
    case (Inl e)
    then show ?thesis by simp
  next
    case (Inr v)
    then show ?thesis using Cons by simp
  qed
qed

lemma exec_first_arg_char: "exec_part U (cmd # a # rest) out = exec_part U [cmd, a] out"
  by (simp add: exec_part_def py_getitem_def Let_def)

lemma exec_unknown:
  "cmd \<notin> set (str '':lucCtr[]$^TD+-'') \<Longrightarrow> exec_part U (cmd # arg) out = Inr out"
  by (simp add: exec_part_def str_def ord_def py_getitem_def Let_def)

text \<open>The list has no more elements than the word has characters, when no element is
  empty: a position outside the word is outside the list.\<close>

lemma list_within_word: "[] \<notin> set out \<Longrightarrow> length out \<le> length (py_join out)"
proof (induction out)
  case Nil
  show ?case by (simp add: py_join_def)
next
  case (Cons x xs)
  then have "x \<noteq> []" and "length xs \<le> length (py_join xs)" by auto
  then show ?case by (cases x) (simp_all add: py_join_def)
qed

text \<open>On an element of one ASCII letter the toggle gives the letter of the other case.\<close>

lemma toggle_ascii:
  "97 \<le> c \<Longrightarrow> c \<le> 122 \<Longrightarrow> toggle U [c] = [c - 32]"
  "65 \<le> c \<Longrightarrow> c \<le> 90 \<Longrightarrow> toggle U [c] = [c + 32]"
  by (simp_all add: toggle_def py_islower_def py_upper_def py_lower_def latin1_def
      lat_islower_def lat_isupper_def lat_upper_def lat_lower_def)

subsection \<open>The parts of a rule\<close>

lemmas py_defs = py_getitem_def py_setitem_def py_int_def digit_of_def toggle_def py_islower_def
  py_upper_def py_lower_def lat_islower_def lat_isupper_def lat_upper_def lat_lower_def latin1_def
  py_insert_def py_pop_first_def py_pop_last_def py_split_def py_isspace_def py_list_def
  py_join_def str_def ord_def

lemma py_split_from_space:
  "py_split_from U cur (r1 @ 32 # r2) = py_split_from U cur r1 @ py_split_from U [] r2"
  by (induction r1 arbitrary: cur) (simp_all add: py_isspace_def)

lemma concat_singletons: "concat (map (\<lambda>c. [c]) w) = w"
  by (induction w) simp_all

lemma concat_fixed: "\<forall>d\<in>set v. f d = [d] \<Longrightarrow> concat (map f v) = v"
  by (induction v) simp_all

lemma apply_u:
  "apply_hashcat_rule U word (str ''u'') = Inr (concat (map (\<lambda>c. py_upper U [c]) word))"
  by (simp add: apply_hashcat_rule_def py_split_def py_isspace_def exec_part_def py_getitem_def
      py_list_def py_join_def str_def ord_def comp_def)

lemma concat_rev_singletons: "concat (rev (map (\<lambda>c. [c]) w)) = rev w"
  by (induction w) simp_all

lemma apply_r: "apply_hashcat_rule U word (str ''r'') = Inr (rev word)"
  by (simp add: apply_hashcat_rule_def py_split_def py_isspace_def exec_part_def py_getitem_def
      py_list_def py_join_def str_def ord_def concat_rev_singletons)

lemma upper_twice:
  assumes "\<forall>c\<in>set w. \<forall>d\<in>set (py_upper U [c]). py_upper U [d] = [d]"
  shows "\<exists>v. apply_hashcat_rule U w (str ''u'') = Inr v \<and> apply_hashcat_rule U v (str ''u'') = Inr v"
proof -
  define v where "v = concat (map (\<lambda>c. py_upper U [c]) w)"
  have "\<forall>d\<in>set v. py_upper U [d] = [d]"
    using assms by (auto simp add: v_def)
  then have "concat (map (\<lambda>c. py_upper U [c]) v) = v"
    by (rule concat_fixed)
  then show ?thesis by (simp add: apply_u v_def)
qed

lemma lat_upper_fixed:
  "c < 256 \<Longrightarrow> c \<noteq> 181 \<Longrightarrow> c \<noteq> 255 \<Longrightarrow> d \<in> set (py_upper U [c]) \<Longrightarrow> py_upper U [d] = [d]"
  by (auto simp add: py_upper_def latin1_def lat_upper_def split: if_splits)

lemma plain_upper_fixed: "upper_fixed plain_ucd"
  unfolding upper_fixed_def list_all_iff
  by (auto simp add: py_upper_def latin1_def lat_upper_def plain_ucd_def split: if_splits)

subsection \<open>The lines of a rule file\<close>

lemma blank_line_iff: "blank_line U l = (dropWhile (py_isspace U) l = [])"
  by (simp add: blank_line_def list_all_iff)

lemma strip_first:
  assumes "dropWhile (py_isspace U) l = c # rest"
  shows "\<exists>rest'. py_strip U l = c # rest'"
proof -
  have c: "\<not> py_isspace U c"
    using assms hd_dropWhile [of "py_isspace U" l] by fastforce
  have "\<exists>ys. dropWhile (py_isspace U) (xs @ [c]) = ys @ [c]" for xs
    using c by (induction xs) auto
  then obtain ys where "dropWhile (py_isspace U) (rev rest @ [c]) = ys @ [c]"
    by blast
  then show ?thesis unfolding py_strip_def assms by simp
qed

lemma strip_nil_iff: "(py_strip U l = []) = blank_line U l"
proof (cases "dropWhile (py_isspace U) l")
  case Nil
  have "py_strip U l = []" unfolding py_strip_def Nil by simp
  then show ?thesis using Nil by (simp only: blank_line_iff)
next
  case (Cons c rest)
  then have "\<not> blank_line U l" by (simp only: blank_line_iff) simp
  then show ?thesis using strip_first [OF Cons] by auto
qed

lemma strip_comment_iff: "(take (Suc 0) (py_strip U l) = [35]) = comment_line U l"
proof (cases "dropWhile (py_isspace U) l")
  case Nil
  have "py_strip U l = []" unfolding py_strip_def Nil by simp
  then show ?thesis unfolding comment_line_def Nil by simp
next
  case (Cons c rest)
  obtain rest' where "py_strip U l = c # rest'" using strip_first [OF Cons] by blast
  then show ?thesis unfolding comment_line_def Cons by (simp add: ord_def)
qed

lemma collect_rules_filter:
  "collect_rules U rules ls = rules @ map (py_strip U) (filter (rule_line U) ls)"
  by (induction ls arbitrary: rules)
     (simp_all add: Let_def rule_line_def strip_nil_iff strip_comment_iff str_def ord_def)

lemma load_readable:
  "load_hashcat_rules U out (Readable txt)
     = Inr (map (py_strip U) (filter (rule_line U) (file_lines txt)))"
  by (simp add: load_hashcat_rules_def path_exists_def collect_rules_filter)

section \<open>The claims\<close>

text \<open>
  C1, as the code has it. \<open>apply_hashcat_rule\<close> returns a string for every word and
  every rule. On the empty word it returns the empty string whatever the rule, before
  any instruction runs, so the rule \<open>u $1\<close> gives the empty string and not \<open>1\<close>. An
  append does apply to a word that an earlier instruction of the same rule has emptied:
  \<open>[ $1\<close> turns \<open>a\<close> into \<open>1\<close>.
\<close>

theorem apply_total_empty_word:
  "(\<exists>v. apply_hashcat_rule U word rule = Inr v)
   \<and> apply_hashcat_rule U [] rule = Inr []
   \<and> apply_hashcat_rule U (str ''a'') (str ''[ $1'') = Inr (str ''1'')"
proof -
  have "apply_hashcat_rule U (str ''a'') (str ''[ $1'') = Inr (str ''1'')"
    by (simp add: apply_hashcat_rule_def exec_part_def py_defs)
  then show ?thesis
    using apply_returns [of U word rule] by (simp add: apply_hashcat_rule_def)
qed

text \<open>The append of \<open>u $1\<close> does not reach the empty word.\<close>

theorem apply_empty_word_no_append:
  "apply_hashcat_rule plain_ucd [] (str ''u $1'') = Inr []
   \<and> apply_hashcat_rule plain_ucd [] (str ''u $1'') \<noteq> Inr (str ''1'')"
  by (simp add: apply_hashcat_rule_def str_def)

text \<open>
  C2, as the code has it. For a path where there is nothing, \<open>load_hashcat_rules\<close>
  returns the empty list of rules and prints nothing. For a path that \<open>open\<close> refuses
  it catches the error and prints a message: it returns the empty list when the message
  is printed, and the exception of \<open>print\<close> when printing raises. For a file that can
  be read it returns a list of rules whatever the text is.
\<close>

theorem load_unopened_returns_empty:
  "load_hashcat_rules U out Missing = Inr []
   \<and> load_hashcat_rules U None Unopenable = Inr []
   \<and> load_hashcat_rules U (Some e) Unopenable = Inl e
   \<and> (\<exists>rules. load_hashcat_rules U out (Readable txt) = Inr rules)"
  by (simp add: load_hashcat_rules_def path_exists_def)

text \<open>With a standard output that works, no error reaches the caller when the file is
  missing or cannot be opened.\<close>

theorem load_unopenable_no_error:
  "load_hashcat_rules plain_ucd None Missing = Inr []
   \<and> load_hashcat_rules plain_ucd None Unopenable = Inr []
   \<and> load_hashcat_rules plain_ucd None Unopenable \<noteq> Inl OSError"
  by (simp add: load_hashcat_rules_def path_exists_def)

text \<open>
  C3. \<open>apply_hashcat_rule\<close> returns a string for every word and every rule, and an
  instruction whose argument is missing, is not a digit where a position is required,
  or names a position outside the list leaves the list as it is, and the loop goes on
  with the next instruction.
\<close>

theorem apply_fail_soft:
  "(\<exists>v. apply_hashcat_rule U word rule = Inr v) \<and>
   (inapplicable U part out \<longrightarrow>
      exec_part U part out = Inr out \<and>
      run_parts U (part # parts) out = run_parts U parts out)"
  using apply_returns [of U word rule] exec_inapplicable [of U part out] by simp

theorem apply_fail_soft_witness:
  "inapplicable plain_ucd (str ''T9'') (py_list (str ''alice''))
   \<and> exec_part plain_ucd (str ''T9'') (py_list (str ''alice'')) = Inr (py_list (str ''alice''))
   \<and> run_parts plain_ucd [str ''T9'', str ''$1''] (py_list (str ''alice''))
       = run_parts plain_ucd [str ''$1''] (py_list (str ''alice''))"
  using apply_fail_soft [of plain_ucd "[]" "[]" "str ''T9''" "py_list (str ''alice'')" "[str ''$1'']"]
  by (simp add: inapplicable_def hex_digit_def upt_rec str_def ord_def py_list_def)

text \<open>
  C4, where the code departs from it. After \<open>u\<close> the word that began as \<open>0xDF a\<close> is
  \<open>SSA\<close>, held as the two elements \<open>SS\<close> and \<open>A\<close>. \<open>T1\<close> toggles the second element
  and gives \<open>SSa\<close>; the character at position 1, counted from zero, is the second \<open>S\<close>.
  On the word that began as \<open>0xDF\<close> alone, \<open>T1\<close> changes nothing, although position 1
  is below the length of \<open>SS\<close>.
\<close>

theorem toggle_after_expansion:
  "apply_hashcat_rule U [223, 97] (str ''u T1'') = Inr (str ''SSa'')
   \<and> apply_hashcat_rule U [223] (str ''u T1'') = Inr (str ''SS'')"
  by (simp add: apply_hashcat_rule_def exec_part_def py_defs)

text \<open>
  C5, where the code departs from it. After \<open>u\<close> the word that began as \<open>0xDF\<close> is
  \<open>SS\<close>, held as one element. \<open>D1\<close> puts a copy of the element after it and gives
  \<open>SSSS\<close>; a copy of the first character would give \<open>SSS\<close>. On \<open>WEISS\<close>, which began
  as \<open>wei\<close> and \<open>0xDF\<close>, \<open>D5\<close> changes nothing, although the word has a fifth
  character.
\<close>

theorem duplicate_after_expansion:
  "apply_hashcat_rule U [223] (str ''u D1'') = Inr (str ''SSSS'')
   \<and> apply_hashcat_rule U (str ''wei'' @ [223]) (str ''u D5'') = Inr (str ''WEISS'')"
  by (simp add: apply_hashcat_rule_def exec_part_def py_defs)

text \<open>
  C6, as the code has it. An instruction whose opcode is none of
  \<open>: l u c C t r [ ] $ ^ T D + -\<close> leaves the list as it is, and the loop goes on with
  the next instruction; the rule \<open>@ $X\<close> therefore appends \<open>X\<close> to every word that is
  not empty, and loading a file that holds this line returns the line as a rule.
\<close>

theorem unknown_opcode_skipped:
  "(cmd \<notin> set (str '':lucCtr[]$^TD+-'') \<longrightarrow>
      exec_part U (cmd # arg) out = Inr out \<and>
      run_parts U ((cmd # arg) # parts) out = run_parts U parts out)
   \<and> (word \<noteq> [] \<longrightarrow> apply_hashcat_rule U word (str ''@ $X'') = Inr (word @ str ''X''))
   \<and> load_hashcat_rules U pr (Readable (str ''@ $X'')) = Inr [str ''@ $X'']"
proof -
  have "load_hashcat_rules U pr (Readable (str ''@ $X'')) = Inr [str ''@ $X'']"
    by (simp add: load_hashcat_rules_def path_exists_def file_lines_def py_strip_def
        py_isspace_def str_def ord_def)
  moreover have "word \<noteq> [] \<longrightarrow>
      apply_hashcat_rule U word (str ''@ $X'') = Inr (word @ str ''X'')"
    by (simp add: apply_hashcat_rule_def py_split_def py_isspace_def exec_part_def
        py_getitem_def py_list_def py_join_def str_def ord_def concat_singletons)
  ultimately show ?thesis using exec_unknown [of cmd U arg out] by simp
qed

theorem unknown_opcode_skipped_witness:
  "ord CHR ''@'' \<notin> set (str '':lucCtr[]$^TD+-'')
   \<and> exec_part plain_ucd (str ''@'') (py_list (str ''alice'')) = Inr (py_list (str ''alice''))
   \<and> run_parts plain_ucd [str ''@'', str ''$X''] (py_list (str ''alice''))
       = run_parts plain_ucd [str ''$X''] (py_list (str ''alice''))
   \<and> str ''alice'' \<noteq> []
   \<and> apply_hashcat_rule plain_ucd (str ''alice'') (str ''@ $X'') = Inr (str ''aliceX'')"
  using unknown_opcode_skipped [of "ord CHR ''@''" plain_ucd "[]" "py_list (str ''alice'')"
      "[str ''$X'']" "str ''alice''"]
  by (simp add: str_def ord_def)

text \<open>On the empty word the rule \<open>@ $X\<close> appends nothing.\<close>

theorem unknown_opcode_empty_word:
  "apply_hashcat_rule plain_ucd [] (str ''@ $X'') = Inr []
   \<and> apply_hashcat_rule plain_ucd [] (str ''@ $X'') \<noteq> Inr (str ''X'')"
  by (simp add: apply_hashcat_rule_def str_def)

text \<open>
  C7. Loading a file that can be read returns the lines of the file that are neither
  blank nor comments, each stripped of the white space around it, in the order of the
  file: one rule for each such line. The result is a function of the text of the file,
  so loading the same text again gives the same rules.
\<close>

theorem load_keeps_rule_lines:
  "load_hashcat_rules U pr (Readable txt)
     = Inr (map (py_strip U) (filter (rule_line U) (file_lines txt)))
   \<and> (\<exists>rules. load_hashcat_rules U pr (Readable txt) = Inr rules
         \<and> length rules = length (filter (rule_line U) (file_lines txt)))
   \<and> load_hashcat_rules U pr
         (Readable (str ''# c'' @ [10, 10] @ str ''u $1 '' @ [13, 10] @ str ''  #x'' @ [10]
            @ str ''l'')) = Inr [str ''u $1'', str ''l'']"
proof -
  have "load_hashcat_rules U pr
         (Readable (str ''# c'' @ [10, 10] @ str ''u $1 '' @ [13, 10] @ str ''  #x'' @ [10]
            @ str ''l'')) = Inr [str ''u $1'', str ''l'']"
    by (simp add: load_hashcat_rules_def path_exists_def file_lines_def py_strip_def
        py_isspace_def str_def ord_def)
  then show ?thesis by (simp add: load_readable)
qed

text \<open>
  C8. For every word, the rule \<open>r\<close> applied to the result of the rule \<open>r\<close> returns the
  word. The rule \<open>u\<close> applied to the result of the rule \<open>u\<close> returns that result again
  for every word, when the case tables of the interpreter map every character of an
  upper case to itself; for a word of code points below 256 other than \<open>0xB5\<close> and
  \<open>0xFF\<close>, whose upper cases lie beyond 255, it does so whatever the tables are.
\<close>

theorem upper_idempotent_reverse_involution:
  "(upper_fixed U \<longrightarrow>
      (\<exists>v. apply_hashcat_rule U w (str ''u'') = Inr v \<and>
            apply_hashcat_rule U v (str ''u'') = Inr v))
   \<and> (list_all (\<lambda>c. c < 256 \<and> c \<noteq> 181 \<and> c \<noteq> 255) w \<longrightarrow>
      (\<exists>v. apply_hashcat_rule U w (str ''u'') = Inr v \<and>
            apply_hashcat_rule U v (str ''u'') = Inr v))
   \<and> (\<exists>v. apply_hashcat_rule U w (str ''r'') = Inr v \<and>
           apply_hashcat_rule U v (str ''r'') = Inr w)"
proof -
  have "upper_fixed U \<longrightarrow>
      (\<exists>v. apply_hashcat_rule U w (str ''u'') = Inr v \<and>
            apply_hashcat_rule U v (str ''u'') = Inr v)"
  proof
    assume "upper_fixed U"
    then have "\<forall>c\<in>set w. \<forall>d\<in>set (py_upper U [c]). py_upper U [d] = [d]"
      by (simp add: upper_fixed_def list_all_iff)
    then show "\<exists>v. apply_hashcat_rule U w (str ''u'') = Inr v \<and>
            apply_hashcat_rule U v (str ''u'') = Inr v"
      by (rule upper_twice)
  qed
  moreover have "list_all (\<lambda>c. c < 256 \<and> c \<noteq> 181 \<and> c \<noteq> 255) w \<longrightarrow>
      (\<exists>v. apply_hashcat_rule U w (str ''u'') = Inr v \<and>
            apply_hashcat_rule U v (str ''u'') = Inr v)"
  proof
    assume "list_all (\<lambda>c. c < 256 \<and> c \<noteq> 181 \<and> c \<noteq> 255) w"
    then have "\<forall>c\<in>set w. \<forall>d\<in>set (py_upper U [c]). py_upper U [d] = [d]"
      using lat_upper_fixed [of _ _ U] by (auto simp add: list_all_iff)
    then show "\<exists>v. apply_hashcat_rule U w (str ''u'') = Inr v \<and>
            apply_hashcat_rule U v (str ''u'') = Inr v"
      by (rule upper_twice)
  qed
  ultimately show ?thesis by (simp add: apply_r)
qed

theorem upper_idempotent_reverse_involution_witness:
  "upper_fixed plain_ucd
   \<and> list_all (\<lambda>c. c < 256 \<and> c \<noteq> 181 \<and> c \<noteq> 255) (str ''stra'' @ [223] @ str ''e'')
   \<and> apply_hashcat_rule plain_ucd (str ''stra'' @ [223] @ str ''e'') (str ''u'')
       = Inr (str ''STRASSE'')
   \<and> apply_hashcat_rule plain_ucd (str ''STRASSE'') (str ''u'') = Inr (str ''STRASSE'')"
proof -
  have a: "apply_hashcat_rule plain_ucd (str ''stra'' @ [223] @ str ''e'') (str ''u'')
       = Inr (str ''STRASSE'')"
    by (simp add: apply_hashcat_rule_def exec_part_def py_defs)
  then show ?thesis
    using upper_idempotent_reverse_involution [of plain_ucd "str ''stra'' @ [223] @ str ''e''"]
      plain_upper_fixed
    by (simp add: str_def ord_def)
qed

text \<open>
  C9. The instructions of a rule run from left to right, each on the list the one
  before it left: running the parts \<open>ps @ qs\<close> is running \<open>ps\<close> and then \<open>qs\<close> on the
  result, also for two rules joined by a space. \<open>$1 $2 $3\<close> turns \<open>alice\<close> into
  \<open>alice123\<close> and \<open>^9\<close> turns it into \<open>9alice\<close>.
\<close>

theorem parts_run_left_to_right:
  "run_parts U (ps @ qs) out = bind_r (run_parts U ps out) (run_parts U qs)
   \<and> run_parts U (py_split U (r1 @ str '' '' @ r2)) out =
       bind_r (run_parts U (py_split U r1) out) (run_parts U (py_split U r2))
   \<and> apply_hashcat_rule U (str ''alice'') (str ''$1 $2 $3'') = Inr (str ''alice123'')
   \<and> apply_hashcat_rule U (str ''alice'') (str ''^9'') = Inr (str ''9alice'')"
proof -
  have "apply_hashcat_rule U (str ''alice'') (str ''$1 $2 $3'') = Inr (str ''alice123'')"
    by (simp add: apply_hashcat_rule_def exec_part_def py_defs)
  moreover have "apply_hashcat_rule U (str ''alice'') (str ''^9'') = Inr (str ''9alice'')"
    by (simp add: apply_hashcat_rule_def exec_part_def py_defs)
  moreover have "py_split U (r1 @ str '' '' @ r2) = py_split U r1 @ py_split U r2"
    by (simp add: py_split_def py_split_from_space str_def ord_def)
  ultimately show ?thesis by (simp add: run_parts_append)
qed

text \<open>
  C10. Of an argument of more than one character only the first is used: an
  instruction runs as if the rest of its argument were not there. \<open>$\<close> and \<open>+\<close> append
  the first character, \<open>^\<close> and \<open>-\<close> put it in front, and \<open>T12\<close> toggles position 1,
  not position 18.
\<close>

theorem only_first_argument_char:
  "exec_part U (cmd # a # rest) out = exec_part U [cmd, a] out
   \<and> exec_part U (ord CHR ''$'' # a # rest) out = Inr (out @ [[a]])
   \<and> exec_part U (ord CHR ''+'' # a # rest) out = Inr (out @ [[a]])
   \<and> exec_part U (ord CHR ''^'' # a # rest) out = Inr ([a] # out)
   \<and> exec_part U (ord CHR ''-'' # a # rest) out = Inr ([a] # out)
   \<and> apply_hashcat_rule U (str ''alice'') (str ''$ab'') = Inr (str ''alicea'')
   \<and> apply_hashcat_rule U (str ''abcdefghijklmnopqrstuvwxyz'') (str ''T12'')
       = Inr (str ''aBcdefghijklmnopqrstuvwxyz'')"
proof -
  have "apply_hashcat_rule U (str ''alice'') (str ''$ab'') = Inr (str ''alicea'')"
    by (simp add: apply_hashcat_rule_def exec_part_def py_defs)
  moreover have "apply_hashcat_rule U (str ''abcdefghijklmnopqrstuvwxyz'') (str ''T12'')
      = Inr (str ''aBcdefghijklmnopqrstuvwxyz'')"
    by (simp add: apply_hashcat_rule_def exec_part_def py_defs)
  moreover have "exec_part U (ord CHR ''$'' # a # rest) out = Inr (out @ [[a]])"
    "exec_part U (ord CHR ''+'' # a # rest) out = Inr (out @ [[a]])"
    "exec_part U (ord CHR ''^'' # a # rest) out = Inr ([a] # out)"
    "exec_part U (ord CHR ''-'' # a # rest) out = Inr ([a] # out)"
    by (simp_all add: exec_part_def ord_def py_getitem_def py_insert_def)
  ultimately show ?thesis using exec_first_arg_char [of U cmd a rest out] by simp
qed

end
